theory Spec2Isabelle
  imports Main
begin

section \<open>The sensors of pun\_sensor (sensor.py)\<close>

text \<open>
  The module sensor.py defines three entity classes that read one shared coordinator
  object: \<^verbatim>\<open>PUNSensorEntity\<close> (one per fascia), \<^verbatim>\<open>FasciaPUNSensorEntity\<close> and
  \<^verbatim>\<open>PrezzoFasciaPUNSensorEntity\<close>. Each class is a record of the fields its methods
  read and write; a method is a function from the object before the call to the object
  after it. The coordinator is shared and changed from outside, so an entity holds a
  reference of type \<open>'r\<close> to it and every method that reads the coordinator takes the
  heap, a function from references to coordinator objects.

  The prices are Python floats that the module only stores, hands on and compares with
  nothing: their type is the parameter \<open>'v\<close>, of class \<open>zero\<close> for the initial \<^verbatim>\<open>0\<close>.
  The display attributes (entity id, icon, state class, precision) and \<^verbatim>\<open>fmt_float\<close>,
  which rounds a float for display, are outside the model.
\<close>

subsection \<open>Python values and errors\<close>

datatype py_error = KeyError | AttributeError

text \<open>\<^verbatim>\<open>d[k]\<close> on a dict raises KeyError when the key is absent.\<close>

definition getitem :: "('k \<rightharpoonup> 'a) \<Rightarrow> 'k \<Rightarrow> py_error + 'a" where
  "getitem d k = (case d k of None \<Rightarrow> Inl KeyError | Some x \<Rightarrow> Inr x)"

text \<open>\<^verbatim>\<open>len(e)\<close> of an expression that may have raised.\<close>

definition py_len :: "py_error + 'a list \<Rightarrow> py_error + nat" where
  "py_len r = (case r of Inl e \<Rightarrow> Inl e | Inr xs \<Rightarrow> Inr (length xs))"

text \<open>
  \<^verbatim>\<open>a and b\<close> on integers: \<^verbatim>\<open>a\<close> is evaluated first; when it raises, the expression
  raises; when it is falsy (zero) it is the result and \<^verbatim>\<open>b\<close> is not evaluated;
  otherwise the result is that of \<^verbatim>\<open>b\<close>.
\<close>

definition py_and :: "py_error + nat \<Rightarrow> py_error + nat \<Rightarrow> py_error + nat" where
  "py_and a b = (case a of Inl e \<Rightarrow> Inl e | Inr x \<Rightarrow> if x = 0 then Inr x else b)"

text \<open>\<^verbatim>\<open>e > n\<close> of an expression that may have raised.\<close>

definition py_gt :: "py_error + nat \<Rightarrow> nat \<Rightarrow> py_error + bool" where
  "py_gt r n = (case r of Inl e \<Rightarrow> Inl e | Inr m \<Rightarrow> Inr (m > n))"

text \<open>
  A method that mutates its object either returns or raises; in both cases the object
  is left in some state, the one reached when the exception was raised in the second.
\<close>

datatype 's outcome = Returned 's | Raised py_error 's

fun outcome_state :: "'s outcome \<Rightarrow> 's" where
  "outcome_state (Returned s) = s"
| "outcome_state (Raised e s) = s"

subsection \<open>The fasce and the coordinator\<close>

text \<open>
  Modelled from the spec: the enum \<^verbatim>\<open>Fascia\<close> is declared in interfaces.py, which is
  not among the sources. The spec calls it an enum used as a dictionary key; its
  members are the five that sensor.py names. A member of a Python enum is truthy.
  The strings \<^verbatim>\<open>Fascia.X.value\<close> are not known here: the functions that use them take
  the mapping from members to strings as their first argument.
\<close>

datatype Fascia = MONO | F1 | F2 | F3 | F23

text \<open>
  The fields of \<^verbatim>\<open>PUNDataUpdateCoordinator\<close> that sensor.py reads:
  \<^verbatim>\<open>pun_data.pun\<close>, a dict from fascia to the list of raw samples,
  \<^verbatim>\<open>pun_values.value\<close>, a dict from fascia to the computed price, and
  \<^verbatim>\<open>fascia_corrente\<close>, a fascia or None.
\<close>

record 'v PUNDataUpdateCoordinator =
  pun_data_pun :: "Fascia \<rightharpoonup> 'v list"
  pun_values_value :: "Fascia \<rightharpoonup> 'v"
  fascia_corrente :: "Fascia option"

subsection \<open>PUNSensorEntity\<close>

record ('r, 'v) PUNSensorEntity =
  pun_coordinator :: 'r
  pun_fascia :: Fascia
  pun_available :: bool
  pun_native_value :: 'v

text \<open>\<^verbatim>\<open>PUNSensorEntity.__init__\<close>\<close>

definition PUNSensorEntity_init :: "'r \<Rightarrow> Fascia \<Rightarrow> ('r, 'v::zero) PUNSensorEntity" where
  "PUNSensorEntity_init coordinator fascia =
     \<lparr>pun_coordinator = coordinator, pun_fascia = fascia,
      pun_available = False, pun_native_value = 0\<rparr>"

text \<open>
  The two branches of \<^verbatim>\<open>_handle_coordinator_update\<close> that find data run the same two
  assignments: \<^verbatim>\<open>self._available = True\<close>, then
  \<^verbatim>\<open>self._native_value = self.coordinator.pun_values.value[self.fascia]\<close>, whose lookup
  may raise after the first assignment is done.
\<close>

definition pun_set_available ::
  "'v PUNDataUpdateCoordinator \<Rightarrow> ('r, 'v) PUNSensorEntity \<Rightarrow> ('r, 'v) PUNSensorEntity outcome" where
  "pun_set_available c self =
     (let self1 = self\<lparr>pun_available := True\<rparr> in
      case getitem (pun_values_value c) (pun_fascia self1) of
        Inl e \<Rightarrow> Raised e self1
      | Inr v \<Rightarrow> Returned (self1\<lparr>pun_native_value := v\<rparr>))"

text \<open>
  \<^verbatim>\<open>PUNSensorEntity._handle_coordinator_update\<close>. The closing call
  \<^verbatim>\<open>self.async_write_ha_state()\<close> hands the entity to the framework and assigns none of
  the fields of the record.
\<close>

definition PUNSensorEntity_handle_coordinator_update ::
  "('r \<Rightarrow> 'v PUNDataUpdateCoordinator) \<Rightarrow> ('r, 'v) PUNSensorEntity
     \<Rightarrow> ('r, 'v) PUNSensorEntity outcome" where
  "PUNSensorEntity_handle_coordinator_update heap self =
     (let c = heap (pun_coordinator self) in
      if pun_fascia self \<noteq> F23 then
        (case py_gt (py_len (getitem (pun_data_pun c) (pun_fascia self))) 0 of
           Inl e \<Rightarrow> Raised e self
         | Inr True \<Rightarrow> pun_set_available c self
         | Inr False \<Rightarrow> Returned (self\<lparr>pun_available := False\<rparr>))
      else
        (case py_gt (py_and (py_len (getitem (pun_data_pun c) F2))
                            (py_len (getitem (pun_data_pun c) F3))) 0 of
           Inl e \<Rightarrow> Raised e self
         | Inr True \<Rightarrow> pun_set_available c self
         | Inr False \<Rightarrow> Returned (self\<lparr>pun_available := False\<rparr>)))"

text \<open>
  \<^verbatim>\<open>extra_restore_state_data\<close> wraps a dict with the one key \<^verbatim>\<open>"native_value"\<close>, and
  \<^verbatim>\<open>async_added_to_hass\<close> reads it back with \<^verbatim>\<open>.get("native_value")\<close>, which is None
  for a missing key as for a stored None. The dict is a record with one optional field.
\<close>

record 'v PUNSensorEntity_extra_data =
  pun_stored_native_value :: "'v option"

definition PUNSensorEntity_extra_restore_state_data ::
  "('r, 'v) PUNSensorEntity \<Rightarrow> 'v PUNSensorEntity_extra_data" where
  "PUNSensorEntity_extra_restore_state_data self =
     \<lparr>pun_stored_native_value =
        (if pun_available self then Some (pun_native_value self) else None)\<rparr>"

text \<open>
  \<^verbatim>\<open>PUNSensorEntity.async_added_to_hass\<close>; the first argument is what
  \<^verbatim>\<open>self.async_get_last_extra_data()\<close> returns, None when nothing was stored. The call
  of the base class registers the entity with the framework and assigns no field.
\<close>

definition PUNSensorEntity_async_added_to_hass ::
  "'v PUNSensorEntity_extra_data option \<Rightarrow> ('r, 'v) PUNSensorEntity
     \<Rightarrow> ('r, 'v) PUNSensorEntity" where
  "PUNSensorEntity_async_added_to_hass last_extra_data self =
     (case last_extra_data of
        None \<Rightarrow> self
      | Some old_data \<Rightarrow>
          (case pun_stored_native_value old_data of
             None \<Rightarrow> self
           | Some old_native_value \<Rightarrow>
               self\<lparr>pun_available := True, pun_native_value := old_native_value\<rparr>))"

definition PUNSensorEntity_should_poll :: "('r, 'v) PUNSensorEntity \<Rightarrow> bool" where
  "PUNSensorEntity_should_poll self = False"

text \<open>
  Modelled from the spec: \<^verbatim>\<open>CURRENCY_EURO\<close> and \<^verbatim>\<open>UnitOfEnergy.KILO_WATT_HOUR\<close> are
  constants of the host platform (homeassistant.const), not of this repository: the
  euro sign and the kilowatt-hour unit. A \<open>char\<close> is a byte, so the euro sign U+20AC
  is its three UTF-8 bytes.
\<close>

definition CURRENCY_EURO :: string where
  "CURRENCY_EURO = [CHR 0xE2, CHR 0x82, CHR 0xAC]"

definition KILO_WATT_HOUR :: string where
  "KILO_WATT_HOUR = ''kWh''"

definition PUNSensorEntity_native_unit_of_measurement ::
  "('r, 'v) PUNSensorEntity \<Rightarrow> string" where
  "PUNSensorEntity_native_unit_of_measurement self =
     CURRENCY_EURO @ ''/'' @ KILO_WATT_HOUR"

subsection \<open>FasciaPUNSensorEntity\<close>

record 'r FasciaPUNSensorEntity =
  fascia_coordinator :: 'r

definition FasciaPUNSensorEntity_init :: "'r \<Rightarrow> 'r FasciaPUNSensorEntity" where
  "FasciaPUNSensorEntity_init coordinator = \<lparr>fascia_coordinator = coordinator\<rparr>"

definition FasciaPUNSensorEntity_should_poll :: "'r FasciaPUNSensorEntity \<Rightarrow> bool" where
  "FasciaPUNSensorEntity_should_poll self = False"

text \<open>\<^verbatim>\<open>self.coordinator.fascia_corrente is not None\<close>\<close>

definition FasciaPUNSensorEntity_available ::
  "('r \<Rightarrow> 'v PUNDataUpdateCoordinator) \<Rightarrow> 'r FasciaPUNSensorEntity \<Rightarrow> bool" where
  "FasciaPUNSensorEntity_available heap self =
     (fascia_corrente (heap (fascia_coordinator self)) \<noteq> None)"

text \<open>
  The truth value of \<^verbatim>\<open>self.coordinator.fascia_corrente\<close>, a fascia or None: None is
  falsy, a member of the enum is truthy.
\<close>

fun truthy :: "Fascia option \<Rightarrow> bool" where
  "truthy None = False"
| "truthy (Some f) = True"

text \<open>\<^verbatim>\<open>x.value\<close>: the string of an enum member, AttributeError on None.\<close>

fun enum_value :: "(Fascia \<Rightarrow> string) \<Rightarrow> Fascia option \<Rightarrow> py_error + string" where
  "enum_value fascia_value None = Inl AttributeError"
| "enum_value fascia_value (Some f) = Inr (fascia_value f)"

text \<open>
  \<^verbatim>\<open>FasciaPUNSensorEntity.native_value\<close>: a string or None, tested with \<^verbatim>\<open>not\<close>
  where \<^verbatim>\<open>available\<close> compares with None.
\<close>

definition FasciaPUNSensorEntity_native_value ::
  "(Fascia \<Rightarrow> string) \<Rightarrow> ('r \<Rightarrow> 'v PUNDataUpdateCoordinator) \<Rightarrow> 'r FasciaPUNSensorEntity
     \<Rightarrow> py_error + string option" where
  "FasciaPUNSensorEntity_native_value fascia_value heap self =
     (let c = heap (fascia_coordinator self) in
      if \<not> truthy (fascia_corrente c) then Inr None
      else (case enum_value fascia_value (fascia_corrente c) of
              Inl e \<Rightarrow> Inl e
            | Inr s \<Rightarrow> Inr (Some s)))"

subsection \<open>PrezzoFasciaPUNSensorEntity\<close>

record ('r, 'v) PrezzoFasciaPUNSensorEntity =
  prezzo_coordinator :: 'r
  prezzo_available :: bool
  prezzo_native_value :: 'v
  prezzo_friendly_name :: string

definition PrezzoFasciaPUNSensorEntity_init ::
  "'r \<Rightarrow> ('r, 'v::zero) PrezzoFasciaPUNSensorEntity" where
  "PrezzoFasciaPUNSensorEntity_init coordinator =
     \<lparr>prezzo_coordinator = coordinator, prezzo_available = False,
      prezzo_native_value = 0, prezzo_friendly_name = ''Prezzo fascia corrente''\<rparr>"

text \<open>
  \<^verbatim>\<open>PrezzoFasciaPUNSensorEntity._handle_coordinator_update\<close>: three assignments in the
  order of the source, the first two with a lookup that may raise; then the call of
  \<^verbatim>\<open>self.async_write_ha_state()\<close>, as above.
\<close>

definition PrezzoFasciaPUNSensorEntity_handle_coordinator_update ::
  "(Fascia \<Rightarrow> string) \<Rightarrow> ('r \<Rightarrow> 'v::zero PUNDataUpdateCoordinator)
     \<Rightarrow> ('r, 'v) PrezzoFasciaPUNSensorEntity \<Rightarrow> ('r, 'v) PrezzoFasciaPUNSensorEntity outcome" where
  "PrezzoFasciaPUNSensorEntity_handle_coordinator_update fascia_value heap self =
     (let c = heap (prezzo_coordinator self) in
      case fascia_corrente c of
        Some fc \<Rightarrow>
          (case py_gt (py_len (getitem (pun_data_pun c) fc)) 0 of
             Inl e \<Rightarrow> Raised e self
           | Inr b \<Rightarrow>
               (let self1 = self\<lparr>prezzo_available := b\<rparr> in
                case getitem (pun_values_value c) fc of
                  Inl e \<Rightarrow> Raised e self1
                | Inr v \<Rightarrow>
                    Returned (self1\<lparr>prezzo_native_value := v,
                      prezzo_friendly_name :=
                        ''Prezzo fascia corrente ('' @ fascia_value fc @ '')''\<rparr>)))
      | None \<Rightarrow>
          Returned (self\<lparr>prezzo_available := False, prezzo_native_value := 0,
            prezzo_friendly_name := ''Prezzo fascia corrente''\<rparr>))"

text \<open>The stored dict has the keys \<^verbatim>\<open>"native_value"\<close> and \<^verbatim>\<open>"friendly_name"\<close>.\<close>

record 'v PrezzoFasciaPUNSensorEntity_extra_data =
  prezzo_stored_native_value :: "'v option"
  prezzo_stored_friendly_name :: "string option"

definition PrezzoFasciaPUNSensorEntity_extra_restore_state_data ::
  "('r, 'v) PrezzoFasciaPUNSensorEntity \<Rightarrow> 'v PrezzoFasciaPUNSensorEntity_extra_data" where
  "PrezzoFasciaPUNSensorEntity_extra_restore_state_data self =
     \<lparr>prezzo_stored_native_value =
        (if prezzo_available self then Some (prezzo_native_value self) else None),
      prezzo_stored_friendly_name =
        (if prezzo_available self then Some (prezzo_friendly_name self) else None)\<rparr>"

definition PrezzoFasciaPUNSensorEntity_async_added_to_hass ::
  "'v PrezzoFasciaPUNSensorEntity_extra_data option \<Rightarrow> ('r, 'v) PrezzoFasciaPUNSensorEntity
     \<Rightarrow> ('r, 'v) PrezzoFasciaPUNSensorEntity" where
  "PrezzoFasciaPUNSensorEntity_async_added_to_hass last_extra_data self =
     (case last_extra_data of
        None \<Rightarrow> self
      | Some old_data \<Rightarrow>
          (let self1 =
             (case prezzo_stored_native_value old_data of
                None \<Rightarrow> self
              | Some old_native_value \<Rightarrow>
                  self\<lparr>prezzo_available := True, prezzo_native_value := old_native_value\<rparr>)
           in case prezzo_stored_friendly_name old_data of
                None \<Rightarrow> self1
              | Some old_friendly_name \<Rightarrow>
                  self1\<lparr>prezzo_friendly_name := old_friendly_name\<rparr>))"

definition PrezzoFasciaPUNSensorEntity_should_poll ::
  "('r, 'v) PrezzoFasciaPUNSensorEntity \<Rightarrow> bool" where
  "PrezzoFasciaPUNSensorEntity_should_poll self = False"

definition PrezzoFasciaPUNSensorEntity_native_unit_of_measurement ::
  "('r, 'v) PrezzoFasciaPUNSensorEntity \<Rightarrow> string" where
  "PrezzoFasciaPUNSensorEntity_native_unit_of_measurement self =
     CURRENCY_EURO @ ''/'' @ KILO_WATT_HOUR"

subsection \<open>async\_setup\_entry\<close>

datatype ('r, 'v) SensorEntity =
    PUNSensor "('r, 'v) PUNSensorEntity"
  | FasciaPUNSensor "'r FasciaPUNSensorEntity"
  | PrezzoFasciaPUNSensor "('r, 'v) PrezzoFasciaPUNSensorEntity"

text \<open>The coordinator an entity was constructed with.\<close>

fun entity_coordinator :: "('r, 'v) SensorEntity \<Rightarrow> 'r" where
  "entity_coordinator (PUNSensor e) = pun_coordinator e"
| "entity_coordinator (FasciaPUNSensor e) = fascia_coordinator e"
| "entity_coordinator (PrezzoFasciaPUNSensor e) = prezzo_coordinator e"

fun is_PUNSensor_of :: "Fascia \<Rightarrow> ('r, 'v) SensorEntity \<Rightarrow> bool" where
  "is_PUNSensor_of f (PUNSensor e) = (pun_fascia e = f)"
| "is_PUNSensor_of f _ = False"

fun is_PUNSensor :: "('r, 'v) SensorEntity \<Rightarrow> bool" where
  "is_PUNSensor (PUNSensor e) = True"
| "is_PUNSensor _ = False"

fun is_FasciaPUNSensor :: "('r, 'v) SensorEntity \<Rightarrow> bool" where
  "is_FasciaPUNSensor (FasciaPUNSensor e) = True"
| "is_FasciaPUNSensor _ = False"

fun is_PrezzoFasciaPUNSensor :: "('r, 'v) SensorEntity \<Rightarrow> bool" where
  "is_PrezzoFasciaPUNSensor (PrezzoFasciaPUNSensor e) = True"
| "is_PrezzoFasciaPUNSensor _ = False"

text \<open>
  What \<^verbatim>\<open>async_setup_entry\<close> leaves behind: the class attribute
  \<^verbatim>\<open>CommonSettings.has_suggested_display_precision\<close> and the one call of
  \<^verbatim>\<open>async_add_entities\<close>, with its list and its keyword argument.
\<close>

record ('r, 'v) setup_effect =
  has_suggested_display_precision :: bool
  added_entities :: "('r, 'v) SensorEntity list"
  update_before_add :: bool

text \<open>
  \<^verbatim>\<open>async_setup_entry\<close>. The arguments before \<open>hass_data\<close> stand for what the module
  imports: \<open>DOMAIN\<close> from const.py, \<open>version_check\<close>, the result of comparing the
  platform's version with 2023.3.0, and the dict \<^verbatim>\<open>PunValues().value\<close> of interfaces.py, as the list of its
  items in the order of iteration (iterating a dict gives its keys).
  \<open>hass_data\<close> is \<^verbatim>\<open>hass.data\<close> and \<open>entry_id\<close> is \<^verbatim>\<open>config.entry_id\<close>.
\<close>

definition async_setup_entry ::
  "string \<Rightarrow> bool \<Rightarrow> (Fascia \<times> 'v) list \<Rightarrow> (string \<rightharpoonup> (string \<rightharpoonup> 'r)) \<Rightarrow> string
     \<Rightarrow> py_error + ('r, 'v::zero) setup_effect" where
  "async_setup_entry DOMAIN version_check PunValues_value hass_data entry_id =
     (case getitem hass_data DOMAIN of
        Inl e \<Rightarrow> Inl e
      | Inr entries \<Rightarrow>
          (case getitem entries entry_id of
             Inl e \<Rightarrow> Inl e
           | Inr coordinator \<Rightarrow>
               (let entities = [];
                    entities = entities @
                      map (\<lambda>fascia. PUNSensor (PUNSensorEntity_init coordinator fascia))
                          (map fst PunValues_value);
                    entities = entities @
                      [FasciaPUNSensor (FasciaPUNSensorEntity_init coordinator)];
                    entities = entities @
                      [PrezzoFasciaPUNSensor (PrezzoFasciaPUNSensorEntity_init coordinator)]
                in Inr \<lparr>has_suggested_display_precision = version_check,
                        added_entities = entities,
                        update_before_add = False\<rparr>)))"

subsection \<open>A concrete coordinator\<close>

text \<open>
  Reference 0 has samples for MONO, F1 and F3, none for F2 and no entry for F23;
  reference 1 has samples for F2 and F3 only; every other reference is the coordinator
  of reference 0 with no current fascia.
\<close>

definition example_coordinator :: "int PUNDataUpdateCoordinator" where
  "example_coordinator =
     \<lparr>pun_data_pun = [MONO \<mapsto> [3, 4], F1 \<mapsto> [3], F2 \<mapsto> [], F3 \<mapsto> [4]],
      pun_values_value = [MONO \<mapsto> 7, F1 \<mapsto> 3, F2 \<mapsto> 0, F3 \<mapsto> 4, F23 \<mapsto> 2],
      fascia_corrente = Some F1\<rparr>"

definition example_heap :: "nat \<Rightarrow> int PUNDataUpdateCoordinator" where
  "example_heap r = (if r = 0 then example_coordinator
     else if r = 1 then example_coordinator\<lparr>pun_data_pun := [F2 \<mapsto> [5], F3 \<mapsto> [4]]\<rparr>
     else example_coordinator\<lparr>fascia_corrente := None\<rparr>)"

definition example_fascia_value :: "Fascia \<Rightarrow> string" where
  "example_fascia_value f =
     (case f of MONO \<Rightarrow> ''MONO'' | F1 \<Rightarrow> ''F1'' | F2 \<Rightarrow> ''F2'' | F3 \<Rightarrow> ''F3'' | F23 \<Rightarrow> ''F23'')"

text \<open>
  A dict \<^verbatim>\<open>PunValues().value\<close> with the five fasce as keys, and a \<^verbatim>\<open>hass.data\<close> that
  holds reference 0 under the domain \<^verbatim>\<open>pun_sensor\<close> and the entry id \<^verbatim>\<open>entry1\<close>.
\<close>

definition example_PunValues_value :: "(Fascia \<times> int) list" where
  "example_PunValues_value = [(MONO, 0), (F1, 0), (F2, 0), (F3, 0), (F23, 0)]"

definition example_hass_data :: "string \<rightharpoonup> (string \<rightharpoonup> nat)" where
  "example_hass_data = [''pun_sensor'' \<mapsto> [''entry1'' \<mapsto> 0]]"

section \<open>Properties\<close>

lemma getitem_Some: "d k = Some x \<Longrightarrow> getitem d k = Inr x"
  by (simp add: getitem_def)

lemma getitem_None: "d k = None \<Longrightarrow> getitem d k = Inl KeyError"
  by (simp add: getitem_def)

subsection \<open>Lookups and comparisons\<close>

lemma py_gt_len_getitem:
  "d k = Some xs \<Longrightarrow> py_gt (py_len (getitem d k)) 0 = Inr (xs \<noteq> [])"
  by (simp add: py_gt_def py_len_def getitem_def)

lemma py_gt_and_len:
  "py_gt (py_and (Inr m) (Inr n)) 0 = Inr (0 < m \<and> 0 < n)"
  by (simp add: py_gt_def py_and_def)

lemma py_gt_and_getitem:
  "d j = Some xs \<Longrightarrow> d k = Some ys \<Longrightarrow>
   py_gt (py_and (py_len (getitem d j)) (py_len (getitem d k))) 0 = Inr (xs \<noteq> [] \<and> ys \<noteq> [])"
  by (simp add: py_gt_def py_and_def py_len_def getitem_def)

lemma py_and_short_circuit:
  "d j = Some [] \<Longrightarrow> py_gt (py_and (py_len (getitem d j)) b) 0 = Inr False"
  by (simp add: py_gt_def py_and_def py_len_def getitem_def)

lemma pun_set_available_Some:
  "pun_values_value c (pun_fascia self) = Some v \<Longrightarrow>
   pun_set_available c self = Returned (self\<lparr>pun_available := True, pun_native_value := v\<rparr>)"
  by (simp add: pun_set_available_def getitem_def)

lemma pun_set_available_None:
  "pun_values_value c (pun_fascia self) = None \<Longrightarrow>
   pun_set_available c self = Raised KeyError (self\<lparr>pun_available := True\<rparr>)"
  by (simp add: pun_set_available_def getitem_def)

lemma pun_set_available_state:
  "pun_available (outcome_state (pun_set_available c self))"
  by (simp add: pun_set_available_def getitem_def split: option.split)

lemma pun_set_available_Returned:
  "pun_set_available c self = Returned self' \<Longrightarrow> pun_available self'"
  by (auto simp: pun_set_available_def getitem_def split: option.splits)

subsection \<open>The coordinator update of PUNSensorEntity\<close>

text \<open>
  Where the update raises, and where the \<^verbatim>\<open>and\<close> of the F23 branch saves it from
  raising: a fascia without a list of samples, a fascia with samples and no computed
  value (the sensor is already marked available), and F23 with an empty list for F2,
  where the list of F3 is not looked up.
\<close>

lemma pun_update_missing_samples:
  "pun_fascia self \<noteq> F23 \<Longrightarrow>
   pun_data_pun (heap (pun_coordinator self)) (pun_fascia self) = None \<Longrightarrow>
   PUNSensorEntity_handle_coordinator_update heap self = Raised KeyError self"
  by (simp add: PUNSensorEntity_handle_coordinator_update_def py_gt_def py_len_def getitem_None)

lemma pun_update_missing_value:
  "pun_fascia self \<noteq> F23 \<Longrightarrow>
   pun_data_pun (heap (pun_coordinator self)) (pun_fascia self) = Some (x # xs) \<Longrightarrow>
   pun_values_value (heap (pun_coordinator self)) (pun_fascia self) = None \<Longrightarrow>
   PUNSensorEntity_handle_coordinator_update heap self
     = Raised KeyError (self\<lparr>pun_available := True\<rparr>)"
  by (simp add: PUNSensorEntity_handle_coordinator_update_def py_gt_len_getitem
      pun_set_available_None)

lemma pun_update_F23_short_circuit:
  "pun_fascia self = F23 \<Longrightarrow>
   pun_data_pun (heap (pun_coordinator self)) F2 = Some [] \<Longrightarrow>
   PUNSensorEntity_handle_coordinator_update heap self
     = Returned (self\<lparr>pun_available := False\<rparr>)"
  by (simp add: PUNSensorEntity_handle_coordinator_update_def py_and_short_circuit)

text \<open>
  Claim C1. For a fascia other than F23 whose list of raw samples is in the coordinator:
  when the list is not empty (and the computed values have an entry \<open>v\<close> for the
  fascia) the update returns with the sensor available and \<open>v\<close> as its stored value;
  when the list is empty the update returns with the sensor unavailable.
\<close>

theorem pun_update_other_fasce:
  assumes "pun_fascia self \<noteq> F23"
    and "pun_data_pun (heap (pun_coordinator self)) (pun_fascia self) = Some xs"
  shows "(xs \<noteq> [] \<and> pun_values_value (heap (pun_coordinator self)) (pun_fascia self) = Some v
            \<longrightarrow> PUNSensorEntity_handle_coordinator_update heap self
                  = Returned (self\<lparr>pun_available := True, pun_native_value := v\<rparr>))
       \<and> (xs = [] \<longrightarrow> PUNSensorEntity_handle_coordinator_update heap self
                  = Returned (self\<lparr>pun_available := False\<rparr>))"
  using assms
  by (simp add: PUNSensorEntity_handle_coordinator_update_def py_gt_len_getitem
      pun_set_available_Some)

theorem pun_update_other_fasce_witness:
  "PUNSensorEntity_handle_coordinator_update example_heap
     \<lparr>pun_coordinator = 0, pun_fascia = MONO, pun_available = False, pun_native_value = 0\<rparr>
   = Returned \<lparr>pun_coordinator = 0, pun_fascia = MONO, pun_available = True, pun_native_value = 7\<rparr>
  \<and> PUNSensorEntity_handle_coordinator_update example_heap
     \<lparr>pun_coordinator = 0, pun_fascia = F2, pun_available = True, pun_native_value = 5\<rparr>
   = Returned \<lparr>pun_coordinator = 0, pun_fascia = F2, pun_available = False, pun_native_value = 5\<rparr>"
  using pun_update_other_fasce [of
      "\<lparr>pun_coordinator = 0, pun_fascia = MONO, pun_available = False, pun_native_value = 0\<rparr>"
      example_heap "[3, 4]" 7]
    pun_update_other_fasce [of
      "\<lparr>pun_coordinator = 0, pun_fascia = F2, pun_available = True, pun_native_value = 5\<rparr>"
      example_heap "[]" 0]
  by (simp add: example_heap_def example_coordinator_def)

text \<open>
  Claim C3. For F23, with the lists of F2 and F3 both in the coordinator, the sensor is
  available after the update exactly when both lists are non-empty, whether the update
  returns or raises on the missing entry of the values; and for all lengths \<open>m\<close>, \<open>n\<close>
  the test \<^verbatim>\<open>(m and n) > 0\<close> is \<open>0 < m \<and> 0 < n\<close>.
\<close>

theorem pun_update_F23:
  assumes "pun_fascia self = F23"
    and "pun_data_pun (heap (pun_coordinator self)) F2 = Some samples_F2"
    and "pun_data_pun (heap (pun_coordinator self)) F3 = Some samples_F3"
  shows "(pun_available (outcome_state (PUNSensorEntity_handle_coordinator_update heap self))
            \<longleftrightarrow> samples_F2 \<noteq> [] \<and> samples_F3 \<noteq> [])
       \<and> (\<forall>m n. py_gt (py_and (Inr m) (Inr n)) 0 = Inr (0 < m \<and> 0 < n))"
  using assms
  by (simp add: PUNSensorEntity_handle_coordinator_update_def py_gt_and_getitem
      py_gt_and_len pun_set_available_state split: bool.split)

theorem pun_update_F23_witness:
  "pun_available (outcome_state (PUNSensorEntity_handle_coordinator_update example_heap
     \<lparr>pun_coordinator = 1, pun_fascia = F23, pun_available = False, pun_native_value = 0\<rparr>))
   \<and> \<not> pun_available (outcome_state (PUNSensorEntity_handle_coordinator_update example_heap
     \<lparr>pun_coordinator = 0, pun_fascia = F23, pun_available = True, pun_native_value = 0\<rparr>))
   \<and> py_gt (py_and (Inr 2) (Inr 0)) 0 = Inr False"
  using pun_update_F23 [of
      "\<lparr>pun_coordinator = 1, pun_fascia = F23, pun_available = False, pun_native_value = 0\<rparr>"
      example_heap "[5]" "[4]"]
    pun_update_F23 [of
      "\<lparr>pun_coordinator = 0, pun_fascia = F23, pun_available = True, pun_native_value = 0\<rparr>"
      example_heap "[]" "[4]"]
  by (simp add: example_heap_def example_coordinator_def)

text \<open>
  Claim C8. An update that returns with the sensor unavailable, which is what the two
  branches without data do for every fascia, leaves the stored value as it was.
\<close>

theorem pun_unavailable_keeps_value:
  assumes "PUNSensorEntity_handle_coordinator_update heap self = Returned self'"
    and "\<not> pun_available self'"
  shows "pun_native_value self' = pun_native_value self"
proof -
  let ?c = "heap (pun_coordinator self)"
  have "pun_set_available ?c self \<noteq> Returned self'"
    using assms(2) pun_set_available_Returned by blast
  with assms(1) have "self' = self\<lparr>pun_available := False\<rparr>"
    by (auto simp: PUNSensorEntity_handle_coordinator_update_def Let_def
        split: if_splits sum.splits bool.splits)
  then show ?thesis by simp
qed

theorem pun_unavailable_keeps_value_witness:
  "PUNSensorEntity_handle_coordinator_update example_heap
     \<lparr>pun_coordinator = 0, pun_fascia = F2, pun_available = True, pun_native_value = 5\<rparr>
   = Returned \<lparr>pun_coordinator = 0, pun_fascia = F2, pun_available = False, pun_native_value = 5\<rparr>
   \<and> pun_native_value
       \<lparr>pun_coordinator = 0::nat, pun_fascia = F2, pun_available = False, pun_native_value = 5::int\<rparr>
     = pun_native_value
       \<lparr>pun_coordinator = 0::nat, pun_fascia = F2, pun_available = True, pun_native_value = 5::int\<rparr>"
proof -
  have run: "PUNSensorEntity_handle_coordinator_update example_heap
     \<lparr>pun_coordinator = 0, pun_fascia = F2, pun_available = True, pun_native_value = 5\<rparr>
   = Returned \<lparr>pun_coordinator = 0, pun_fascia = F2, pun_available = False, pun_native_value = 5\<rparr>"
    by (simp add: PUNSensorEntity_handle_coordinator_update_def example_heap_def
        example_coordinator_def py_gt_def py_len_def getitem_def)
  have off: "\<not> pun_available
     \<lparr>pun_coordinator = 0::nat, pun_fascia = F2, pun_available = False, pun_native_value = 5::int\<rparr>"
    by simp
  from pun_unavailable_keeps_value [OF run off] run show ?thesis by simp
qed

subsection \<open>The coordinator update of PrezzoFasciaPUNSensorEntity\<close>

text \<open>
  Claim C2. With the current fascia \<open>fc\<close> set and present in both dicts, the update
  stores the computed value of \<open>fc\<close>, makes the sensor available exactly when the
  list of raw samples of \<open>fc\<close> is non-empty, and names the sensor after \<open>fc\<close>.
\<close>

theorem prezzo_update_current_band:
  assumes "fascia_corrente (heap (prezzo_coordinator self)) = Some fc"
    and "pun_data_pun (heap (prezzo_coordinator self)) fc = Some xs"
    and "pun_values_value (heap (prezzo_coordinator self)) fc = Some v"
  shows "PrezzoFasciaPUNSensorEntity_handle_coordinator_update fascia_value heap self
           = Returned (self\<lparr>prezzo_available := (xs \<noteq> []), prezzo_native_value := v,
               prezzo_friendly_name := ''Prezzo fascia corrente ('' @ fascia_value fc @ '')''\<rparr>)"
  using assms
  by (simp add: PrezzoFasciaPUNSensorEntity_handle_coordinator_update_def py_gt_def
      py_len_def getitem_def)

theorem prezzo_update_current_band_witness:
  "PrezzoFasciaPUNSensorEntity_handle_coordinator_update example_fascia_value example_heap
       \<lparr>prezzo_coordinator = 0, prezzo_available = False, prezzo_native_value = 0,
        prezzo_friendly_name = ''Prezzo fascia corrente''\<rparr>
     = Returned \<lparr>prezzo_coordinator = 0, prezzo_available = True, prezzo_native_value = 3,
        prezzo_friendly_name = ''Prezzo fascia corrente (F1)''\<rparr>"
  using prezzo_update_current_band [of example_heap
       "\<lparr>prezzo_coordinator = 0, prezzo_available = False, prezzo_native_value = 0,
        prezzo_friendly_name = ''Prezzo fascia corrente''\<rparr>" F1 "[3]" 3 example_fascia_value]
  by (simp add: example_heap_def example_coordinator_def example_fascia_value_def)

text \<open>
  Claim C9. With no current fascia the update returns with the sensor unavailable, the
  stored value 0 and the default name, whatever the sensor held before.
\<close>

theorem prezzo_update_no_band:
  assumes "fascia_corrente (heap (prezzo_coordinator self)) = None"
  shows "PrezzoFasciaPUNSensorEntity_handle_coordinator_update fascia_value heap self
           = Returned (self\<lparr>prezzo_available := False, prezzo_native_value := 0,
               prezzo_friendly_name := ''Prezzo fascia corrente''\<rparr>)"
  using assms
  by (simp add: PrezzoFasciaPUNSensorEntity_handle_coordinator_update_def)

theorem prezzo_update_no_band_witness:
  "PrezzoFasciaPUNSensorEntity_handle_coordinator_update example_fascia_value example_heap
       \<lparr>prezzo_coordinator = 2, prezzo_available = True, prezzo_native_value = 3,
        prezzo_friendly_name = ''Prezzo fascia corrente (F1)''\<rparr>
     = Returned \<lparr>prezzo_coordinator = 2, prezzo_available = False, prezzo_native_value = 0,
        prezzo_friendly_name = ''Prezzo fascia corrente''\<rparr>"
  using prezzo_update_no_band [of example_heap
       "\<lparr>prezzo_coordinator = 2, prezzo_available = True, prezzo_native_value = 3,
        prezzo_friendly_name = ''Prezzo fascia corrente (F1)''\<rparr>" example_fascia_value]
  by (simp add: example_heap_def example_coordinator_def)

subsection \<open>Saving and restoring\<close>

lemma restore_without_native_value_pun:
  "pun_stored_native_value d = None \<Longrightarrow> PUNSensorEntity_async_added_to_hass (Some d) t = t"
  by (simp add: PUNSensorEntity_async_added_to_hass_def)

lemma prezzo_restore_without_native_value:
  "prezzo_stored_native_value d = None \<Longrightarrow>
   prezzo_available (PrezzoFasciaPUNSensorEntity_async_added_to_hass (Some d) r) = prezzo_available r
   \<and> prezzo_native_value (PrezzoFasciaPUNSensorEntity_async_added_to_hass (Some d) r)
       = prezzo_native_value r"
  by (simp add: PrezzoFasciaPUNSensorEntity_async_added_to_hass_def split: option.split)

text \<open>
  Claim C4. What an available sensor \<open>s\<close> (or \<open>p\<close>) saves, handed to
  \<^verbatim>\<open>async_added_to_hass\<close> of any sensor \<open>t\<close> (or \<open>r\<close>), gives back the availability
  and the stored value of \<open>s\<close> (and the name of \<open>p\<close>); an unavailable sensor \<open>u\<close>
  (or \<open>q\<close>) saves None, and restoring that, or nothing at all, changes nothing.
\<close>

theorem restore_round_trip:
  assumes "pun_available s" and "\<not> pun_available u"
    and "prezzo_available p" and "\<not> prezzo_available q"
  shows "pun_available (PUNSensorEntity_async_added_to_hass
            (Some (PUNSensorEntity_extra_restore_state_data s)) t) = pun_available s
       \<and> pun_native_value (PUNSensorEntity_async_added_to_hass
            (Some (PUNSensorEntity_extra_restore_state_data s)) t) = pun_native_value s
       \<and> pun_stored_native_value (PUNSensorEntity_extra_restore_state_data u) = None
       \<and> PUNSensorEntity_async_added_to_hass
            (Some (PUNSensorEntity_extra_restore_state_data u)) t = t
       \<and> PUNSensorEntity_async_added_to_hass None t = t
       \<and> prezzo_available (PrezzoFasciaPUNSensorEntity_async_added_to_hass
            (Some (PrezzoFasciaPUNSensorEntity_extra_restore_state_data p)) r) = prezzo_available p
       \<and> prezzo_native_value (PrezzoFasciaPUNSensorEntity_async_added_to_hass
            (Some (PrezzoFasciaPUNSensorEntity_extra_restore_state_data p)) r)
          = prezzo_native_value p
       \<and> prezzo_friendly_name (PrezzoFasciaPUNSensorEntity_async_added_to_hass
            (Some (PrezzoFasciaPUNSensorEntity_extra_restore_state_data p)) r)
          = prezzo_friendly_name p
       \<and> prezzo_stored_native_value (PrezzoFasciaPUNSensorEntity_extra_restore_state_data q) = None
       \<and> prezzo_stored_friendly_name (PrezzoFasciaPUNSensorEntity_extra_restore_state_data q) = None
       \<and> PrezzoFasciaPUNSensorEntity_async_added_to_hass
            (Some (PrezzoFasciaPUNSensorEntity_extra_restore_state_data q)) r = r
       \<and> PrezzoFasciaPUNSensorEntity_async_added_to_hass None r = r"
  using assms
  by (simp add: PUNSensorEntity_async_added_to_hass_def
      PUNSensorEntity_extra_restore_state_data_def
      PrezzoFasciaPUNSensorEntity_async_added_to_hass_def
      PrezzoFasciaPUNSensorEntity_extra_restore_state_data_def)

theorem restore_round_trip_witness:
  "pun_available (PUNSensorEntity_async_added_to_hass
      (Some (PUNSensorEntity_extra_restore_state_data
         \<lparr>pun_coordinator = 0::nat, pun_fascia = F1, pun_available = True,
          pun_native_value = 7::int\<rparr>))
      (PUNSensorEntity_init (0::nat) F1))
   \<and> pun_native_value (PUNSensorEntity_async_added_to_hass
      (Some (PUNSensorEntity_extra_restore_state_data
         \<lparr>pun_coordinator = 0::nat, pun_fascia = F1, pun_available = True,
          pun_native_value = 7::int\<rparr>))
      (PUNSensorEntity_init (0::nat) F1)) = 7
   \<and> pun_stored_native_value (PUNSensorEntity_extra_restore_state_data
         \<lparr>pun_coordinator = 0::nat, pun_fascia = F1, pun_available = False,
          pun_native_value = 7::int\<rparr>) = None
   \<and> prezzo_available (PrezzoFasciaPUNSensorEntity_async_added_to_hass
      (Some (PrezzoFasciaPUNSensorEntity_extra_restore_state_data
         \<lparr>prezzo_coordinator = 0::nat, prezzo_available = True, prezzo_native_value = 3::int,
          prezzo_friendly_name = ''Prezzo fascia corrente (F1)''\<rparr>))
      (PrezzoFasciaPUNSensorEntity_init (0::nat)))
   \<and> prezzo_native_value (PrezzoFasciaPUNSensorEntity_async_added_to_hass
      (Some (PrezzoFasciaPUNSensorEntity_extra_restore_state_data
         \<lparr>prezzo_coordinator = 0::nat, prezzo_available = True, prezzo_native_value = 3::int,
          prezzo_friendly_name = ''Prezzo fascia corrente (F1)''\<rparr>))
      (PrezzoFasciaPUNSensorEntity_init (0::nat))) = 3
   \<and> prezzo_friendly_name (PrezzoFasciaPUNSensorEntity_async_added_to_hass
      (Some (PrezzoFasciaPUNSensorEntity_extra_restore_state_data
         \<lparr>prezzo_coordinator = 0::nat, prezzo_available = True, prezzo_native_value = 3::int,
          prezzo_friendly_name = ''Prezzo fascia corrente (F1)''\<rparr>))
      (PrezzoFasciaPUNSensorEntity_init (0::nat))) = ''Prezzo fascia corrente (F1)''
   \<and> prezzo_stored_native_value (PrezzoFasciaPUNSensorEntity_extra_restore_state_data
         \<lparr>prezzo_coordinator = 0::nat, prezzo_available = False, prezzo_native_value = 3::int,
          prezzo_friendly_name = ''Prezzo fascia corrente (F1)''\<rparr>) = None"
  using restore_round_trip [of
      "\<lparr>pun_coordinator = 0::nat, pun_fascia = F1, pun_available = True,
        pun_native_value = 7::int\<rparr>"
      "\<lparr>pun_coordinator = 0::nat, pun_fascia = F1, pun_available = False,
        pun_native_value = 7::int\<rparr>"
      "\<lparr>prezzo_coordinator = 0::nat, prezzo_available = True, prezzo_native_value = 3::int,
        prezzo_friendly_name = ''Prezzo fascia corrente (F1)''\<rparr>"
      "\<lparr>prezzo_coordinator = 0::nat, prezzo_available = False, prezzo_native_value = 3::int,
        prezzo_friendly_name = ''Prezzo fascia corrente (F1)''\<rparr>"
      "PUNSensorEntity_init (0::nat) F1" "PrezzoFasciaPUNSensorEntity_init (0::nat)"]
  by simp

subsection \<open>The properties read by the framework\<close>

text \<open>
  Claim C5. \<^verbatim>\<open>FasciaPUNSensorEntity\<close> is available exactly when the coordinator has a
  current fascia, and its value is the string of that fascia, or None without one; the
  property never raises.
\<close>

theorem fascia_sensor_available_and_value:
  "(FasciaPUNSensorEntity_available heap self
      \<longleftrightarrow> fascia_corrente (heap (fascia_coordinator self)) \<noteq> None)
   \<and> FasciaPUNSensorEntity_native_value fascia_value heap self
      = Inr (case fascia_corrente (heap (fascia_coordinator self)) of
               None \<Rightarrow> None | Some f \<Rightarrow> Some (fascia_value f))"
  by (simp add: FasciaPUNSensorEntity_available_def FasciaPUNSensorEntity_native_value_def
      split: option.split)

text \<open>
  Claim C6. \<^verbatim>\<open>should_poll\<close> is False for each of the three classes in every state.
\<close>

theorem entities_never_poll:
  "PUNSensorEntity_should_poll s = False
   \<and> FasciaPUNSensorEntity_should_poll f = False
   \<and> PrezzoFasciaPUNSensorEntity_should_poll p = False"
  by (simp add: PUNSensorEntity_should_poll_def FasciaPUNSensorEntity_should_poll_def
      PrezzoFasciaPUNSensorEntity_should_poll_def)

text \<open>
  Claim C7. The unit of measurement of \<^verbatim>\<open>PUNSensorEntity\<close> and of
  \<^verbatim>\<open>PrezzoFasciaPUNSensorEntity\<close> is, in every state, the euro sign (three bytes in
  UTF-8), a slash and \<^verbatim>\<open>kWh\<close>.
\<close>

theorem unit_of_measurement_constant:
  "PUNSensorEntity_native_unit_of_measurement s
     = [CHR 0xE2, CHR 0x82, CHR 0xAC] @ ''/kWh''
   \<and> PrezzoFasciaPUNSensorEntity_native_unit_of_measurement p
     = [CHR 0xE2, CHR 0x82, CHR 0xAC] @ ''/kWh''"
  by (simp add: PUNSensorEntity_native_unit_of_measurement_def
      PrezzoFasciaPUNSensorEntity_native_unit_of_measurement_def CURRENCY_EURO_def
      KILO_WATT_HOUR_def)

subsection \<open>Setting up the entities\<close>

lemma length_filter_eq_distinct:
  "distinct ks \<Longrightarrow> length (filter (\<lambda>k. k = f) ks) = (if f \<in> set ks then 1 else 0)"
  by (induction ks) auto

lemma filter_PUNSensor_of_map:
  "filter (is_PUNSensor_of f) (map (\<lambda>k. PUNSensor (PUNSensorEntity_init r k)) ks)
     = map (\<lambda>k. PUNSensor (PUNSensorEntity_init r k)) (filter (\<lambda>k. k = f) ks)"
  by (induction ks) (simp_all add: PUNSensorEntity_init_def)

lemma filter_other_map_PUNSensor:
  "filter is_FasciaPUNSensor (map (\<lambda>k. PUNSensor (g k)) ks) = []"
  "filter is_PrezzoFasciaPUNSensor (map (\<lambda>k. PUNSensor (g k)) ks) = []"
  by (induction ks) simp_all

lemma filter_PUNSensor_map:
  "filter is_PUNSensor (map (\<lambda>k. PUNSensor (g k)) ks) = map (\<lambda>k. PUNSensor (g k)) ks"
  by (induction ks) simp_all

text \<open>
  Claim C10. When \<^verbatim>\<open>hass.data[DOMAIN][config.entry_id]\<close> is a coordinator,
  \<^verbatim>\<open>async_setup_entry\<close> calls \<^verbatim>\<open>async_add_entities\<close> with
  \<^verbatim>\<open>update_before_add=False\<close> and a list that holds one \<^verbatim>\<open>PUNSensorEntity\<close> for each
  key of \<^verbatim>\<open>PunValues().value\<close> and none for any other fascia, one
  \<^verbatim>\<open>FasciaPUNSensorEntity\<close>, one \<^verbatim>\<open>PrezzoFasciaPUNSensorEntity\<close> and nothing else, every
  entity constructed with that coordinator. The keys of a dict are distinct.
\<close>

theorem setup_creates_entities:
  assumes "distinct (map fst PunValues_value)"
    and "hass_data DOMAIN = Some entries"
    and "entries entry_id = Some coordinator"
  shows "\<exists>effect.
           async_setup_entry DOMAIN version_check PunValues_value hass_data entry_id
             = Inr effect
         \<and> update_before_add effect = False
         \<and> (\<forall>f. length (filter (is_PUNSensor_of f) (added_entities effect))
                  = (if f \<in> fst ` set PunValues_value then 1 else 0))
         \<and> length (filter is_PUNSensor (added_entities effect)) = length PunValues_value
         \<and> length (filter is_FasciaPUNSensor (added_entities effect)) = 1
         \<and> length (filter is_PrezzoFasciaPUNSensor (added_entities effect)) = 1
         \<and> length (added_entities effect) = length PunValues_value + 2
         \<and> (\<forall>e \<in> set (added_entities effect). entity_coordinator e = coordinator)"
proof -
  let ?puns = "map (\<lambda>fascia. PUNSensor (PUNSensorEntity_init coordinator fascia))
                   (map fst PunValues_value)"
  let ?entities = "?puns @ [FasciaPUNSensor (FasciaPUNSensorEntity_init coordinator),
                     PrezzoFasciaPUNSensor (PrezzoFasciaPUNSensorEntity_init coordinator)]"
  have run: "async_setup_entry DOMAIN version_check PunValues_value hass_data entry_id
      = Inr \<lparr>has_suggested_display_precision = version_check,
             added_entities = ?entities, update_before_add = False\<rparr>"
    using assms(2,3) by (simp add: async_setup_entry_def getitem_def)
  let ?effect = "\<lparr>has_suggested_display_precision = version_check,
             added_entities = ?entities, update_before_add = False\<rparr>"
  have sel: "added_entities ?effect = ?entities"
    by simp
  have keys: "length (filter (\<lambda>k. k = f) (map fst PunValues_value))
      = (if f \<in> fst ` set PunValues_value then 1 else 0)" for f
    using length_filter_eq_distinct [OF assms(1), of f] by simp
  have flt: "filter (is_PUNSensor_of f) ?entities
      = map (\<lambda>k. PUNSensor (PUNSensorEntity_init coordinator k))
          (filter (\<lambda>k. k = f) (map fst PunValues_value))" for f
    by (simp only: filter_append filter_PUNSensor_of_map filter.simps is_PUNSensor_of.simps
        if_False append_Nil2)
  have one_each: "length (filter (is_PUNSensor_of f) ?entities)
      = (if f \<in> fst ` set PunValues_value then 1 else 0)" for f
    by (simp only: flt length_map keys)
  have puns: "length (filter is_PUNSensor ?entities) = length PunValues_value"
    by (simp only: filter_append filter_PUNSensor_map filter.simps is_PUNSensor.simps
        if_False append_Nil2 length_map)
  have fascia: "length (filter is_FasciaPUNSensor ?entities) = 1"
    by (simp only: filter_append filter_other_map_PUNSensor filter.simps
        is_FasciaPUNSensor.simps if_False if_True append_Nil list.size)
  have prezzo: "length (filter is_PrezzoFasciaPUNSensor ?entities) = 1"
    by (simp only: filter_append filter_other_map_PUNSensor filter.simps
        is_PrezzoFasciaPUNSensor.simps if_False if_True append_Nil list.size)
  have total: "length ?entities = length PunValues_value + 2"
    by simp
  have bound: "\<forall>e \<in> set ?entities. entity_coordinator e = coordinator"
    by (auto simp: PUNSensorEntity_init_def FasciaPUNSensorEntity_init_def
        PrezzoFasciaPUNSensorEntity_init_def)
  show ?thesis
  proof (intro exI [of _ ?effect] conjI allI)
    show "async_setup_entry DOMAIN version_check PunValues_value hass_data entry_id
        = Inr ?effect"
      by (rule run)
    show "update_before_add ?effect = False"
      by simp
    show "length (filter (is_PUNSensor_of f) (added_entities ?effect))
        = (if f \<in> fst ` set PunValues_value then 1 else 0)" for f
      unfolding sel by (rule one_each)
    show "length (filter is_PUNSensor (added_entities ?effect)) = length PunValues_value"
      unfolding sel by (rule puns)
    show "length (filter is_FasciaPUNSensor (added_entities ?effect)) = 1"
      unfolding sel by (rule fascia)
    show "length (filter is_PrezzoFasciaPUNSensor (added_entities ?effect)) = 1"
      unfolding sel by (rule prezzo)
    show "length (added_entities ?effect) = length PunValues_value + 2"
      unfolding sel by (rule total)
    show "\<forall>e \<in> set (added_entities ?effect). entity_coordinator e = coordinator"
      unfolding sel by (rule bound)
  qed
qed

theorem setup_creates_entities_witness:
  "distinct (map fst example_PunValues_value)
   \<and> (\<exists>effect. async_setup_entry ''pun_sensor'' True example_PunValues_value
                  example_hass_data ''entry1'' = Inr effect
         \<and> update_before_add effect = False
         \<and> length (filter (is_PUNSensor_of F23) (added_entities effect)) = 1
         \<and> length (filter is_PUNSensor (added_entities effect)) = 5
         \<and> length (filter is_FasciaPUNSensor (added_entities effect)) = 1
         \<and> length (filter is_PrezzoFasciaPUNSensor (added_entities effect)) = 1
         \<and> length (added_entities effect) = 7
         \<and> (\<forall>e \<in> set (added_entities effect). entity_coordinator e = 0))"
proof -
  have d: "distinct (map fst example_PunValues_value)"
    by (simp add: example_PunValues_value_def)
  have h: "example_hass_data ''pun_sensor'' = Some [''entry1'' \<mapsto> 0]"
    by (simp add: example_hass_data_def)
  have e: "[''entry1'' \<mapsto> (0::nat)] ''entry1'' = Some 0"
    by simp
  obtain effect where eff:
    "async_setup_entry ''pun_sensor'' True example_PunValues_value example_hass_data ''entry1''
       = Inr effect"
    "update_before_add effect = False"
    "\<forall>f. length (filter (is_PUNSensor_of f) (added_entities effect))
                  = (if f \<in> fst ` set example_PunValues_value then 1 else 0)"
    "length (filter is_PUNSensor (added_entities effect)) = length example_PunValues_value"
    "length (filter is_FasciaPUNSensor (added_entities effect)) = 1"
    "length (filter is_PrezzoFasciaPUNSensor (added_entities effect)) = 1"
    "length (added_entities effect) = length example_PunValues_value + 2"
    "\<forall>e \<in> set (added_entities effect). entity_coordinator e = 0"
    using setup_creates_entities [where PunValues_value = example_PunValues_value
        and hass_data = example_hass_data and DOMAIN = "''pun_sensor''"
        and entries = "[''entry1'' \<mapsto> 0]" and entry_id = "''entry1''" and coordinator = 0
        and version_check = True, OF d h e]
    by blast
  from eff(3) have "length (filter (is_PUNSensor_of F23) (added_entities effect)) = 1"
    by (simp add: example_PunValues_value_def)
  with d eff show ?thesis
    by (simp add: example_PunValues_value_def)
qed

end
